theory Spec2Isabelle
  imports Complex_Main
begin

section \<open>The Salt glue script (templates/js/salt.js)\<close>

text \<open>
  The script keeps three module-level variables (\<open>saltApp\<close>, \<open>container\<close>,
  \<open>resizeObserver\<close>) and talks to two collaborators: the compiled module
  \<open>./pkg/app.js\<close> and the browser (document, elements, resize observers, console).
  Both collaborators are made explicit: the module is a record of outcomes and
  operations, the browser is part of the state that every function takes and returns.

  A Number is modelled by the real it denotes (the coordinates and sizes that the DOM
  reports are finite). \<open>Math.floor\<close> of such a Number is an integer and is exact, so it
  is \<open>floor\<close>. The difference of two Numbers is rounded by the engine, so \<open>-\<close> is
  not subtraction of reals: it is the operation \<open>number_minus\<close> that the engine
  supplies, and nothing is assumed of it.
\<close>

subsection \<open>Values thrown\<close>

text \<open>
  \<open>Error m\<close> is a value thrown by the compiled module (or a rejected promise) whose
  \<open>message\<close> property is \<open>m\<close>. \<open>TypeError p\<close> is what the engine throws when
  property \<open>p\<close> of \<open>null\<close> is accessed.
\<close>

datatype js_error = Error (message: string) | TypeError (message: string)

datatype 'w result = Done 'w | Threw js_error 'w

fun world_of :: "'w result \<Rightarrow> 'w" where
  "world_of (Done w) = w"
| "world_of (Threw e w) = w"

fun threw :: "'w result \<Rightarrow> bool" where
  "threw (Done w) = False"
| "threw (Threw e w) = True"

subsection \<open>The browser\<close>

type_synonym elem = nat

record domrect =
  rect_left :: real
  rect_top :: real
  rect_width :: real
  rect_height :: real

text \<open>The only function this script ever registers as a listener.\<close>

datatype listener = HandleEvent

record node =
  innerHTML :: string
  boundingClientRect :: domrect
  listeners :: "(string \<times> listener) list"

record event =
  type_name :: string
  clientX :: real
  clientY :: real

datatype console_entry = ConsoleLog string | ConsoleError string js_error

subsection \<open>The engine and the compiled module\<close>

text \<open>
  What the script is given from outside. \<open>number_minus\<close> is the engine's \<open>-\<close> on
  Numbers. The other fields are the module \<open>./pkg/app.js\<close>: \<open>'s\<close> is the internal
  state of a \<open>SaltApp\<close> object, each operation may throw and may change that state, and
  \<open>import_app\<close> and \<open>wasm_default\<close> are the outcomes of the two awaited promises
  (\<open>Some e\<close>: rejected with \<open>e\<close>).
\<close>

record 's environment =
  number_minus :: "real \<Rightarrow> real \<Rightarrow> real"
  import_app :: "js_error option"
  wasm_default :: "js_error option"
  new_SaltApp :: "js_error + 's"
  render_svg :: "'s \<Rightarrow> int \<Rightarrow> int \<Rightarrow> (js_error + string) \<times> 's"
  handle_mouse_event :: "'s \<Rightarrow> string \<Rightarrow> real \<Rightarrow> real \<Rightarrow> (js_error + bool) \<times> 's"

text \<open>The calls made on the Application Handle, in order (a log kept beside the state).\<close>

datatype app_call = RenderSvg int int | HandleMouseEvent string real real

fun is_render :: "app_call \<Rightarrow> bool" where
  "is_render (RenderSvg wd ht) = True"
| "is_render (HandleMouseEvent t x y) = False"

subsection \<open>The state\<close>

text \<open>
  \<open>saltApp\<close>, \<open>container\<close> and \<open>resizeObserver\<close> are the script's variables
  (\<open>None\<close> is \<open>null\<close>). \<open>observers\<close> holds every \<open>ResizeObserver\<close> object created so
  far, each with the elements it observes; a \<open>resizeObserver\<close> reference is an index
  into it.
\<close>

record 's world =
  saltApp :: "'s option"
  container :: "elem option"
  resizeObserver :: "nat option"
  elementById :: "string \<Rightarrow> elem option"
  nodes :: "elem \<Rightarrow> node"
  observers :: "elem list list"
  console :: "console_entry list"
  calls :: "app_call list"

definition set_innerHTML :: "elem \<Rightarrow> string \<Rightarrow> 's world \<Rightarrow> 's world" where
  "set_innerHTML c markup w = w\<lparr>nodes := (nodes w)(c := (nodes w c)\<lparr>innerHTML := markup\<rparr>)\<rparr>"

definition addEventListener :: "elem \<Rightarrow> string \<Rightarrow> listener \<Rightarrow> 's world \<Rightarrow> 's world" where
  "addEventListener c t l w =
     (let ls = listeners (nodes w c)
      in if (t, l) \<in> set ls then w
         else w\<lparr>nodes := (nodes w)(c := (nodes w c)\<lparr>listeners := ls @ [(t, l)]\<rparr>)\<rparr>)"

definition disconnect :: "nat \<Rightarrow> 's world \<Rightarrow> 's world" where
  "disconnect ob w = w\<lparr>observers := (observers w)[ob := []]\<rparr>"

definition observe :: "nat \<Rightarrow> elem \<Rightarrow> 's world \<Rightarrow> 's world" where
  "observe ob c w =
     (let ts = observers w ! ob
      in w\<lparr>observers := (observers w)[ob := (if c \<in> set ts then ts else ts @ [c])]\<rparr>)"

subsection \<open>renderSvg\<close>

definition renderSvg :: "'s environment \<Rightarrow> 's world \<Rightarrow> 's world result" where
  "renderSvg env w =
     (case saltApp w of
        None \<Rightarrow> Done w
      | Some s \<Rightarrow>
          (case container w of
             None \<Rightarrow> Done w
           | Some c \<Rightarrow>
               (let r = boundingClientRect (nodes w c);
                    wd = \<lfloor>rect_width r\<rfloor>;
                    ht = \<lfloor>rect_height r\<rfloor>;
                    out = render_svg env s wd ht;
                    w' = w\<lparr>saltApp := Some (snd out), calls := calls w @ [RenderSvg wd ht]\<rparr>
                in case fst out of
                     Inl e \<Rightarrow> Threw e w'
                   | Inr markup \<Rightarrow> Done (set_innerHTML c markup w'))))"

subsection \<open>handleEvent\<close>

definition handleEvent :: "'s environment \<Rightarrow> event \<Rightarrow> 's world \<Rightarrow> 's world result" where
  "handleEvent env ev w =
     (case saltApp w of
        None \<Rightarrow> Done w
      | Some s \<Rightarrow>
          (case container w of
             None \<Rightarrow> Threw (TypeError ''getBoundingClientRect'') w
           | Some c \<Rightarrow>
               (let rect = boundingClientRect (nodes w c);
                    x = number_minus env (clientX ev) (rect_left rect);
                    y = number_minus env (clientY ev) (rect_top rect);
                    out = handle_mouse_event env s (type_name ev) x y;
                    w' = w\<lparr>saltApp := Some (snd out),
                           calls := calls w @ [HandleMouseEvent (type_name ev) x y]\<rparr>
                in case fst out of
                     Inl e \<Rightarrow> Threw e w'
                   | Inr stateChanged \<Rightarrow> if stateChanged then renderSvg env w' else Done w')))"

subsection \<open>setupEventListeners\<close>

definition events :: "string list" where
  "events = [''click'', ''mousedown'', ''mouseup'', ''mousemove'']"

definition setupEventListeners :: "'s world \<Rightarrow> 's world" where
  "setupEventListeners w =
     (case container w of
        None \<Rightarrow> w
      | Some c \<Rightarrow> fold (\<lambda>eventType. addEventListener c eventType HandleEvent) events w)"

subsection \<open>setupResizeObserver\<close>

text \<open>The callback given to \<open>new ResizeObserver\<close>; an entry is represented by its target.\<close>

fun resizeCallback :: "'s environment \<Rightarrow> elem list \<Rightarrow> 's world \<Rightarrow> 's world result" where
  "resizeCallback env [] w = Done w"
| "resizeCallback env (target # entries) w =
     (if container w = Some target \<and> saltApp w \<noteq> None
      then (case renderSvg env w of
              Threw e w' \<Rightarrow> Threw e w'
            | Done w' \<Rightarrow> resizeCallback env entries w')
      else resizeCallback env entries w)"

definition disconnectPrevious :: "'s world \<Rightarrow> 's world" where
  "disconnectPrevious w = (case resizeObserver w of None \<Rightarrow> w | Some ob \<Rightarrow> disconnect ob w)"

definition setupResizeObserver :: "'s world \<Rightarrow> 's world" where
  "setupResizeObserver w =
     (let w1 = disconnectPrevious w;
          ob = length (observers w1);
          w2 = w1\<lparr>observers := observers w1 @ [[]], resizeObserver := Some ob\<rparr>
      in case container w2 of
           None \<Rightarrow> w2
         | Some c \<Rightarrow> observe ob c w2)"

subsection \<open>initApp\<close>

definition error_markup :: "js_error \<Rightarrow> string" where
  \<open>error_markup err =
     ''<div style="color: red; padding: 20px;">Error: '' @ message err @ ''</div>''\<close>

definition container_id :: string where
  "container_id = ''app-container''"

definition importModule :: "'s environment \<Rightarrow> 's world \<Rightarrow> 's world result" where
  "importModule env w = (case import_app env of Some e \<Rightarrow> Threw e w | None \<Rightarrow> Done w)"

definition wasmDefault :: "'s environment \<Rightarrow> 's world \<Rightarrow> 's world result" where
  "wasmDefault env w = (case wasm_default env of Some e \<Rightarrow> Threw e w | None \<Rightarrow> Done w)"

definition getContainer :: "'s world \<Rightarrow> 's world result" where
  "getContainer w = Done (w\<lparr>container := elementById w container_id\<rparr>)"

definition newSaltApp :: "'s environment \<Rightarrow> 's world \<Rightarrow> 's world result" where
  "newSaltApp env w =
     (case new_SaltApp env of Inl e \<Rightarrow> Threw e w | Inr s \<Rightarrow> Done (w\<lparr>saltApp := Some s\<rparr>))"

definition logInitialized :: "'s world \<Rightarrow> 's world result" where
  "logInitialized w =
     Done (w\<lparr>console := console w @ [ConsoleLog ''Salt app initialized successfully'']\<rparr>)"

text \<open>The statements of the \<open>try\<close> block, in source order.\<close>

definition tryBlock :: "'s environment \<Rightarrow> ('s world \<Rightarrow> 's world result) list" where
  "tryBlock env =
     [importModule env,
      wasmDefault env,
      getContainer,
      newSaltApp env,
      renderSvg env,
      (\<lambda>w. Done (setupEventListeners w)),
      (\<lambda>w. Done (setupResizeObserver w)),
      logInitialized]"

text \<open>Statements run in sequence; the first one that throws ends the sequence.\<close>

fun run_steps :: "('w \<Rightarrow> 'w result) list \<Rightarrow> 'w \<Rightarrow> 'w result" where
  "run_steps [] w = Done w"
| "run_steps (st # sts) w =
     (case st w of Threw e w' \<Rightarrow> Threw e w' | Done w' \<Rightarrow> run_steps sts w')"

definition catchBlock :: "js_error \<Rightarrow> 's world \<Rightarrow> 's world result" where
  "catchBlock err w =
     (let w1 = w\<lparr>console := console w @ [ConsoleError ''Failed to initialize Salt app:'' err]\<rparr>
      in case container w1 of
           None \<Rightarrow> Threw (TypeError ''innerHTML'') w1
         | Some c \<Rightarrow> Done (set_innerHTML c (error_markup err) w1))"

definition initApp :: "'s environment \<Rightarrow> 's world \<Rightarrow> 's world result" where
  "initApp env w =
     (case run_steps (tryBlock env) w of
        Done w' \<Rightarrow> Done w'
      | Threw err w' \<Rightarrow> catchBlock err w')"

subsection \<open>The browser delivering events\<close>

text \<open>
  An event reaching element \<open>e\<close> runs every listener registered there for the event's
  type. A resize of \<open>e\<close> runs the callback of every observer that observes \<open>e\<close>, with
  the one entry for \<open>e\<close>. A value thrown by a callback goes to the browser's error
  reporting; the state the callback left behind stays.
\<close>

fun runListeners :: "'s environment \<Rightarrow> event \<Rightarrow> (string \<times> listener) list \<Rightarrow> 's world \<Rightarrow> 's world" where
  "runListeners env ev [] w = w"
| "runListeners env ev ((t, HandleEvent) # ls) w =
     (if t = type_name ev
      then runListeners env ev ls (world_of (handleEvent env ev w))
      else runListeners env ev ls w)"

definition dispatchEvent :: "'s environment \<Rightarrow> elem \<Rightarrow> event \<Rightarrow> 's world \<Rightarrow> 's world" where
  "dispatchEvent env e ev w = runListeners env ev (listeners (nodes w e)) w"

fun notifyObservers :: "'s environment \<Rightarrow> elem \<Rightarrow> elem list list \<Rightarrow> 's world \<Rightarrow> 's world" where
  "notifyObservers env e [] w = w"
| "notifyObservers env e (targets # obs) w =
     (if e \<in> set targets
      then notifyObservers env e obs (world_of (resizeCallback env [e] w))
      else notifyObservers env e obs w)"

definition notifyResize :: "'s environment \<Rightarrow> elem \<Rightarrow> 's world \<Rightarrow> 's world" where
  "notifyResize env e w = notifyObservers env e (observers w) w"

definition layout :: "elem \<Rightarrow> domrect \<Rightarrow> 's world \<Rightarrow> 's world" where
  "layout e r w = w\<lparr>nodes := (nodes w)(e := (nodes w e)\<lparr>boundingClientRect := r\<rparr>)\<rparr>"

datatype host_event = Dispatch elem event | Resized elem | Layout elem domrect

fun host_step :: "'s environment \<Rightarrow> host_event \<Rightarrow> 's world \<Rightarrow> 's world" where
  "host_step env (Dispatch e ev) w = dispatchEvent env e ev w"
| "host_step env (Resized e) w = notifyResize env e w"
| "host_step env (Layout e r) w = layout e r w"

text \<open>
  The page: \<open>DOMContentLoaded\<close> fires once and runs \<open>initApp\<close>, then the browser
  delivers events.
\<close>

definition page :: "'s environment \<Rightarrow> host_event list \<Rightarrow> 's world \<Rightarrow> 's world" where
  "page env hs w = fold (host_step env) hs (world_of (initApp env w))"

text \<open>The state when the script has been loaded and nothing has run yet.\<close>

definition fresh :: "'s world \<Rightarrow> bool" where
  "fresh w \<longleftrightarrow>
     saltApp w = None \<and> container w = None \<and> resizeObserver w = None \<and>
     observers w = [] \<and> calls w = [] \<and> (\<forall>e. listeners (nodes w e) = [])"

subsection \<open>Notions used in the properties\<close>


text \<open>The observers that observe at least one element.\<close>

definition active_observers :: "'s world \<Rightarrow> elem list list" where
  "active_observers w = filter (\<lambda>targets. targets \<noteq> []) (observers w)"

text \<open>
  Every observer other than the one held in \<open>resizeObserver\<close> observes nothing, and
  \<open>resizeObserver\<close> refers to an observer that has been created.
\<close>

definition others_disconnected :: "'s world \<Rightarrow> bool" where
  "others_disconnected w \<longleftrightarrow>
     (\<forall>i < length (observers w). resizeObserver w \<noteq> Some i \<longrightarrow> observers w ! i = []) \<and>
     (\<forall>ob. resizeObserver w = Some ob \<longrightarrow> ob < length (observers w))"

subsection \<open>A concrete page\<close>

text \<open>
  A module whose application counts the events it has seen and asks for a new render on
  every event but a mouse move, and a page whose element 7 carries the fixed identifier,
  with its top-left corner at (20, 60) and a size of 400.7 by 300. Every difference taken
  in the examples is a difference of integers whose result is an integer, which the
  engine computes exactly; the example engine subtracts exactly.
\<close>

definition example_module :: "nat environment" where
  \<open>example_module =
     \<lparr>number_minus = (\<lambda>a b. a - b),
      import_app = None,
      wasm_default = None,
      new_SaltApp = Inr 0,
      render_svg = (\<lambda>s wd ht. (Inr (if wd = 400 \<and> ht = 300 then ''<svg width="400" height="300"/>'' else ''<svg/>''), s)),
      handle_mouse_event = (\<lambda>s t x y. (Inr (t \<noteq> ''mousemove''), Suc s))\<rparr>\<close>

definition example_node :: node where
  "example_node =
     \<lparr>innerHTML = ''loading'',
      boundingClientRect = \<lparr>rect_left = 20, rect_top = 60, rect_width = 4007 / 10, rect_height = 300\<rparr>,
      listeners = []\<rparr>"

definition example_page :: "nat world" where
  "example_page =
     \<lparr>saltApp = None, container = None, resizeObserver = None,
      elementById = (\<lambda>i. if i = container_id then Some 7 else None),
      nodes = (\<lambda>e. example_node),
      observers = [], console = [], calls = []\<rparr>"

text \<open>
  A module whose application keeps the list of what it was asked, in order: each event
  with the coordinates it was given, each render with the size it was given. The page
  \<open>recording_page\<close> is the example page with such an application and the container set.
\<close>

definition recording_module :: "(string \<times> real \<times> real) list environment" where
  \<open>recording_module =
     \<lparr>number_minus = (\<lambda>a b. a - b),
      import_app = None,
      wasm_default = None,
      new_SaltApp = Inr [],
      render_svg = (\<lambda>s wd ht. (Inr (if wd = 400 \<and> ht = 300 then ''<svg width="400" height="300"/>'' else ''<svg/>''),
                                   s @ [(''render_svg'', of_int wd, of_int ht)])),
      handle_mouse_event = (\<lambda>s t x y. (Inr (t \<noteq> ''mousemove''), s @ [(t, x, y)]))\<rparr>\<close>

definition recording_page :: "(string \<times> real \<times> real) list world" where
  "recording_page =
     \<lparr>saltApp = Some [], container = Some 7, resizeObserver = None,
      elementById = (\<lambda>i. if i = container_id then Some 7 else None),
      nodes = (\<lambda>e. example_node),
      observers = [], console = [], calls = []\<rparr>"

text \<open>The same page without an element of that identifier.\<close>

definition no_container_page :: "nat world" where
  "no_container_page = example_page\<lparr>elementById := (\<lambda>i. None)\<rparr>"

text \<open>States of the script on that page: handle and container set, and so on.\<close>

definition ready_page :: "nat world" where
  "ready_page = example_page\<lparr>saltApp := Some 0, container := Some 7\<rparr>"

definition watched_page :: "nat world" where
  "watched_page = ready_page\<lparr>resizeObserver := Some 0, observers := [[7]]\<rparr>"

definition unresolved_page :: "nat world" where
  "unresolved_page = example_page\<lparr>resizeObserver := Some 0, observers := [[3]]\<rparr>"

definition unattached_page :: "nat world" where
  "unattached_page = no_container_page\<lparr>saltApp := Some 0\<rparr>"

definition handle_only_page :: "nat world" where
  "handle_only_page = example_page\<lparr>saltApp := Some 0\<rparr>"

text \<open>Events.\<close>

definition mousedown_120_160 :: event where
  "mousedown_120_160 = \<lparr>type_name = ''mousedown'', clientX = 120, clientY = 160\<rparr>"

definition mousemove_30_40 :: event where
  "mousemove_30_40 = \<lparr>type_name = ''mousemove'', clientX = 30, clientY = 40\<rparr>"


definition example_events :: "host_event list" where
  "example_events = [Dispatch 7 mousedown_120_160, Resized 7, Dispatch 7 mousemove_30_40]"


definition throwing_handler_module :: "nat environment" where
  "throwing_handler_module =
     example_module\<lparr>handle_mouse_event := (\<lambda>s t x y. (Inl (Error ''panic''), Suc s))\<rparr>"

definition failing_module :: "nat environment" where
  "failing_module = example_module\<lparr>import_app := Some (Error ''network error'')\<rparr>"

definition failing_init_module :: "nat environment" where
  "failing_init_module = example_module\<lparr>wasm_default := Some (Error ''bad magic number'')\<rparr>"

definition throwing_constructor_module :: "nat environment" where
  "throwing_constructor_module = example_module\<lparr>new_SaltApp := Inl (Error ''out of memory'')\<rparr>"

definition throwing_render_module :: "nat environment" where
  "throwing_render_module =
     example_module\<lparr>render_svg := (\<lambda>s wd ht. (Inl (Error ''unreachable''), s))\<rparr>"

section \<open>Properties\<close>

lemmas example_defs = example_module_def example_node_def example_page_def ready_page_def
  mousedown_120_160_def mousemove_30_40_def container_id_def

subsection \<open>What rendering and event handling leave alone\<close>

lemma renderSvg_frame:
  "container (world_of (renderSvg env w)) = container w"
  "resizeObserver (world_of (renderSvg env w)) = resizeObserver w"
  "observers (world_of (renderSvg env w)) = observers w"
  "elementById (world_of (renderSvg env w)) = elementById w"
  "console (world_of (renderSvg env w)) = console w"
  "listeners (nodes (world_of (renderSvg env w)) e) = listeners (nodes w e)"
  "boundingClientRect (nodes (world_of (renderSvg env w)) e) = boundingClientRect (nodes w e)"
  by (auto simp: renderSvg_def set_innerHTML_def Let_def split: option.splits sum.splits)

lemma renderSvg_saltApp:
  "(saltApp (world_of (renderSvg env w)) = None) = (saltApp w = None)"
  "(\<exists>s'. saltApp (world_of (renderSvg env w)) = Some s') = (\<exists>s. saltApp w = Some s)"
  by (auto simp: renderSvg_def set_innerHTML_def Let_def split: option.splits sum.splits)

lemma renderSvg_calls:
  "calls (world_of (renderSvg env w)) =
     calls w @ (case saltApp w of None \<Rightarrow> [] | Some s \<Rightarrow>
                 (case container w of None \<Rightarrow> [] | Some c \<Rightarrow>
                    [RenderSvg \<lfloor>rect_width (boundingClientRect (nodes w c))\<rfloor>
                               \<lfloor>rect_height (boundingClientRect (nodes w c))\<rfloor>]))"
  by (auto simp: renderSvg_def set_innerHTML_def Let_def split: option.splits sum.splits)

lemma handleEvent_frame:
  "container (world_of (handleEvent env ev w)) = container w"
  "resizeObserver (world_of (handleEvent env ev w)) = resizeObserver w"
  "observers (world_of (handleEvent env ev w)) = observers w"
  "elementById (world_of (handleEvent env ev w)) = elementById w"
  "console (world_of (handleEvent env ev w)) = console w"
  "listeners (nodes (world_of (handleEvent env ev w)) e) = listeners (nodes w e)"
  "boundingClientRect (nodes (world_of (handleEvent env ev w)) e) = boundingClientRect (nodes w e)"
  by (auto simp: handleEvent_def renderSvg_frame Let_def split: option.splits sum.splits)

lemma handleEvent_saltApp:
  "(saltApp (world_of (handleEvent env ev w)) = None) = (saltApp w = None)"
  "(\<exists>s'. saltApp (world_of (handleEvent env ev w)) = Some s') = (\<exists>s. saltApp w = Some s)"
  by (cases "saltApp w"; cases "container w";
      simp add: handleEvent_def renderSvg_saltApp Let_def split: sum.splits)+

subsection \<open>The Viewport Binder\<close>

text \<open>
  C2. \<open>renderSvg\<close> returns the state as it was when the Application Handle or the
  Container Reference is absent. Otherwise, when the handle's render operation returns
  markup, the one call made on the handle has the floor of the container's measured
  width and of its height as arguments, and the container's content becomes that markup,
  whatever it was before; besides the handle's own state nothing else changes.
\<close>

theorem renderSvg_contract:
  "(saltApp w = None \<or> container w = None \<longrightarrow> renderSvg env w = Done w) \<and>
   (saltApp w = Some s \<and> container w = Some c \<and>
    render_svg env s \<lfloor>rect_width (boundingClientRect (nodes w c))\<rfloor>
                     \<lfloor>rect_height (boundingClientRect (nodes w c))\<rfloor> = (Inr markup, s')
    \<longrightarrow> renderSvg env w =
          Done (w\<lparr>saltApp := Some s',
                  calls := calls w @ [RenderSvg \<lfloor>rect_width (boundingClientRect (nodes w c))\<rfloor>
                                                \<lfloor>rect_height (boundingClientRect (nodes w c))\<rfloor>],
                  nodes := (nodes w)(c := (nodes w c)\<lparr>innerHTML := markup\<rparr>)\<rparr>))"
  by (auto simp: renderSvg_def set_innerHTML_def Let_def split: option.splits)

theorem renderSvg_contract_witness:
  \<open>renderSvg example_module example_page = Done example_page \<and>
   renderSvg example_module ready_page =
     Done (ready_page\<lparr>saltApp := Some 0, calls := calls ready_page @ [RenderSvg 400 300],
       nodes := (nodes ready_page)(7 := (nodes ready_page 7)\<lparr>innerHTML := ''<svg width="400" height="300"/>''\<rparr>)\<rparr>)\<close>
proof -
  have a: "saltApp example_page = None \<or> container example_page = None"
    by (simp add: example_defs)
  have b: \<open>saltApp ready_page = Some 0 \<and> container ready_page = Some 7 \<and>
    render_svg example_module 0 \<lfloor>rect_width (boundingClientRect (nodes ready_page 7))\<rfloor>
        \<lfloor>rect_height (boundingClientRect (nodes ready_page 7))\<rfloor> = (Inr ''<svg width="400" height="300"/>'', 0)\<close>
    by (simp add: example_defs)
  have f: "\<lfloor>rect_width (boundingClientRect (nodes ready_page 7))\<rfloor> = 400"
          "\<lfloor>rect_height (boundingClientRect (nodes ready_page 7))\<rfloor> = 300"
    by (simp_all add: example_defs)
  show ?thesis
    using renderSvg_contract [where w = example_page and env = example_module] a
          renderSvg_contract [where w = ready_page and s = 0 and c = 7 and env = example_module] b
    by (simp add: f)
qed

subsection \<open>The Input Router\<close>

lemma handleEvent_first_call:
  assumes "saltApp w = Some s" and "container w = Some c"
  shows "take (Suc (length (calls w))) (calls (world_of (handleEvent env ev w))) =
         calls w @ [HandleMouseEvent (type_name ev)
                      (number_minus env (clientX ev) (rect_left (boundingClientRect (nodes w c))))
                      (number_minus env (clientY ev) (rect_top (boundingClientRect (nodes w c))))]"
  using assms
  by (auto simp: handleEvent_def renderSvg_def set_innerHTML_def Let_def split: sum.splits)




text \<open>
  C4. When the Application Handle and the Container Reference exist, what \<open>handleEvent\<close>
  does after \<open>handle_mouse_event\<close> is decided by what that returned:
  \<^item> true: \<open>handleEvent\<close> is \<open>renderSvg\<close> run on the state the handle was left in; when
    the render operation returns markup, the container's content becomes that markup;
  \<^item> false: nothing more is done, so the state is the one after \<open>handle_mouse_event\<close>
    and no element has changed;
  \<^item> a throw: the value thrown leaves \<open>handleEvent\<close> and nothing more is done.
  So a render call is logged exactly when it returned true.
\<close>

theorem handleEvent_rerender_iff:
  assumes "saltApp w = Some s" and "container w = Some c"
  shows "let x = number_minus env (clientX ev) (rect_left (boundingClientRect (nodes w c)));
             y = number_minus env (clientY ev) (rect_top (boundingClientRect (nodes w c)));
             out = handle_mouse_event env s (type_name ev) x y;
             w1 = w\<lparr>saltApp := Some (snd out),
                    calls := calls w @ [HandleMouseEvent (type_name ev) x y]\<rparr>;
             wd = \<lfloor>rect_width (boundingClientRect (nodes w c))\<rfloor>;
             ht = \<lfloor>rect_height (boundingClientRect (nodes w c))\<rfloor>;
             w' = world_of (handleEvent env ev w)
         in (fst out = Inr True \<longrightarrow>
               handleEvent env ev w = renderSvg env w1 \<and>
               (render_svg env (snd out) wd ht = (Inr markup, s') \<longrightarrow>
                  handleEvent env ev w =
                    Done (w\<lparr>saltApp := Some s',
                            calls := calls w @ [HandleMouseEvent (type_name ev) x y, RenderSvg wd ht],
                            nodes := (nodes w)(c := (nodes w c)\<lparr>innerHTML := markup\<rparr>)\<rparr>))) \<and>
            (fst out = Inr False \<longrightarrow> handleEvent env ev w = Done w1 \<and> nodes w' = nodes w) \<and>
            (fst out = Inl e \<longrightarrow> handleEvent env ev w = Threw e w1 \<and> nodes w' = nodes w) \<and>
            (list_ex is_render (drop (length (calls w)) (calls w')) \<longleftrightarrow> fst out = Inr True)"
  using assms
  by (auto simp: handleEvent_def renderSvg_def set_innerHTML_def renderSvg_calls Let_def
        split: sum.splits)

theorem handleEvent_rerender_iff_witness:
  \<open>handleEvent recording_module mousedown_120_160 recording_page =
     Done (recording_page\<lparr>saltApp := Some [(''mousedown'', 100, 100), (''render_svg'', 400, 300)],
       calls := [HandleMouseEvent ''mousedown'' 100 100, RenderSvg 400 300],
       nodes := (nodes recording_page)
         (7 := (nodes recording_page 7)\<lparr>innerHTML := ''<svg width="400" height="300"/>''\<rparr>)\<rparr>) \<and>
   handleEvent recording_module mousemove_30_40 recording_page =
     Done (recording_page\<lparr>saltApp := Some [(''mousemove'', 10, - 20)],
       calls := [HandleMouseEvent ''mousemove'' 10 (- 20)]\<rparr>) \<and>
   handleEvent throwing_handler_module mousedown_120_160 ready_page =
     Threw (Error ''panic'')
       (ready_page\<lparr>saltApp := Some 1, calls := [HandleMouseEvent ''mousedown'' 100 100]\<rparr>)\<close>
proof -
  have a: "saltApp recording_page = Some []" "container recording_page = Some 7"
    by (simp_all add: recording_page_def)
  have a': "saltApp ready_page = Some 0" "container ready_page = Some 7"
    by (simp_all add: example_defs)
  have d: \<open>fst (handle_mouse_event recording_module [] (type_name mousedown_120_160)
             (number_minus recording_module (clientX mousedown_120_160)
                (rect_left (boundingClientRect (nodes recording_page 7))))
             (number_minus recording_module (clientY mousedown_120_160)
                (rect_top (boundingClientRect (nodes recording_page 7))))) = Inr True \<and>
     render_svg recording_module
        (snd (handle_mouse_event recording_module [] (type_name mousedown_120_160)
             (number_minus recording_module (clientX mousedown_120_160)
                (rect_left (boundingClientRect (nodes recording_page 7))))
             (number_minus recording_module (clientY mousedown_120_160)
                (rect_top (boundingClientRect (nodes recording_page 7))))))
        \<lfloor>rect_width (boundingClientRect (nodes recording_page 7))\<rfloor>
        \<lfloor>rect_height (boundingClientRect (nodes recording_page 7))\<rfloor> =
       (Inr ''<svg width="400" height="300"/>'', [(''mousedown'', 100, 100), (''render_svg'', 400, 300)])\<close>
    by (simp add: recording_page_def recording_module_def example_defs)
  have m: "fst (handle_mouse_event recording_module [] (type_name mousemove_30_40)
             (number_minus recording_module (clientX mousemove_30_40)
                (rect_left (boundingClientRect (nodes recording_page 7))))
             (number_minus recording_module (clientY mousemove_30_40)
                (rect_top (boundingClientRect (nodes recording_page 7))))) = Inr False"
    by (simp add: recording_page_def recording_module_def example_defs)
  have h: "fst (handle_mouse_event throwing_handler_module 0 (type_name mousedown_120_160)
             (number_minus throwing_handler_module (clientX mousedown_120_160)
                (rect_left (boundingClientRect (nodes ready_page 7))))
             (number_minus throwing_handler_module (clientY mousedown_120_160)
                (rect_top (boundingClientRect (nodes ready_page 7))))) = Inl (Error ''panic'')"
    by (simp add: throwing_handler_module_def example_defs)
  have A: \<open>handleEvent recording_module mousedown_120_160 recording_page =
     Done (recording_page\<lparr>saltApp := Some [(''mousedown'', 100, 100), (''render_svg'', 400, 300)],
       calls := [HandleMouseEvent ''mousedown'' 100 100, RenderSvg 400 300],
       nodes := (nodes recording_page)
         (7 := (nodes recording_page 7)\<lparr>innerHTML := ''<svg width="400" height="300"/>''\<rparr>)\<rparr>)\<close>
    using handleEvent_rerender_iff [OF a, where env = recording_module and ev = mousedown_120_160
            and markup = \<open>''<svg width="400" height="300"/>''\<close>
            and s' = "[(''mousedown'', 100, 100), (''render_svg'', 400, 300)]"] d
    by (simp add: Let_def renderSvg_def set_innerHTML_def recording_page_def
          recording_module_def example_defs)
  have B: "handleEvent recording_module mousemove_30_40 recording_page =
     Done (recording_page\<lparr>saltApp := Some [(''mousemove'', 10, - 20)],
       calls := [HandleMouseEvent ''mousemove'' 10 (- 20)]\<rparr>)"
    using handleEvent_rerender_iff [OF a, where env = recording_module and ev = mousemove_30_40] m
    by (simp add: Let_def renderSvg_def set_innerHTML_def recording_page_def
          recording_module_def example_defs)
  have C: "handleEvent throwing_handler_module mousedown_120_160 ready_page =
     Threw (Error ''panic'')
       (ready_page\<lparr>saltApp := Some 1, calls := [HandleMouseEvent ''mousedown'' 100 100]\<rparr>)"
    using handleEvent_rerender_iff [OF a', where env = throwing_handler_module
            and ev = mousedown_120_160 and e = "Error ''panic''"] h
    by (simp add: Let_def renderSvg_def set_innerHTML_def throwing_handler_module_def
          example_defs)
  from A B C show ?thesis by blast
qed

subsection \<open>The resize callback\<close>








subsection \<open>Resize Watcher\<close>

lemma disconnectPrevious_all_empty:
  assumes "others_disconnected w"
  shows "observers (disconnectPrevious w) = replicate (length (observers w)) []"
proof (rule nth_equalityI)
  show "length (observers (disconnectPrevious w)) = length (replicate (length (observers w)) [])"
    by (simp add: disconnectPrevious_def disconnect_def split: option.splits)
next
  fix i assume "i < length (observers (disconnectPrevious w))"
  then have i: "i < length (observers w)"
    by (simp add: disconnectPrevious_def disconnect_def split: option.splits)
  show "observers (disconnectPrevious w) ! i = replicate (length (observers w)) [] ! i"
  proof (cases "resizeObserver w = Some i")
    case True
    with i show ?thesis by (simp add: disconnectPrevious_def disconnect_def)
  next
    case False
    with assms i have "observers w ! i = []" by (simp add: others_disconnected_def)
    with i False show ?thesis
      by (cases "resizeObserver w") (auto simp: disconnectPrevious_def disconnect_def nth_list_update)
  qed
qed

lemma disconnectPrevious_frame:
  "saltApp (disconnectPrevious w) = saltApp w"
  "container (disconnectPrevious w) = container w"
  "resizeObserver (disconnectPrevious w) = resizeObserver w"
  "elementById (disconnectPrevious w) = elementById w"
  "nodes (disconnectPrevious w) = nodes w"
  "console (disconnectPrevious w) = console w"
  "calls (disconnectPrevious w) = calls w"
  "length (observers (disconnectPrevious w)) = length (observers w)"
  by (simp_all add: disconnectPrevious_def disconnect_def split: option.splits)

lemma setupResizeObserver_frame:
  "saltApp (setupResizeObserver w) = saltApp w"
  "container (setupResizeObserver w) = container w"
  "elementById (setupResizeObserver w) = elementById w"
  "nodes (setupResizeObserver w) = nodes w"
  "console (setupResizeObserver w) = console w"
  "calls (setupResizeObserver w) = calls w"
  "resizeObserver (setupResizeObserver w) = Some (length (observers w))"
  by (simp_all add: setupResizeObserver_def observe_def disconnectPrevious_frame Let_def
        split: option.splits)

lemma setupResizeObserver_observers:
  "observers (setupResizeObserver w) =
     observers (disconnectPrevious w) @ [case container w of None \<Rightarrow> [] | Some c \<Rightarrow> [c]]"
  by (simp add: setupResizeObserver_def observe_def disconnectPrevious_frame Let_def
        nth_append list_update_append split: option.splits)

lemma setupResizeObserver_inv:
  assumes "others_disconnected w"
  shows "others_disconnected (setupResizeObserver w)"
  unfolding others_disconnected_def
  by (simp add: setupResizeObserver_frame setupResizeObserver_observers
        disconnectPrevious_all_empty [OF assms] nth_append)

lemma setupResizeObserver_pow_inv:
  "others_disconnected w \<Longrightarrow> others_disconnected ((setupResizeObserver ^^ n) w)"
  by (induction n) (simp_all add: setupResizeObserver_inv)

lemma all_but_one_empty:
  "(\<forall>i < length xs. i \<noteq> k \<longrightarrow> xs ! i = []) \<Longrightarrow> length (filter (\<lambda>ts. ts \<noteq> []) xs) \<le> Suc 0"
proof (induction xs arbitrary: k)
  case Nil
  then show ?case by simp
next
  case (Cons x xs)
  show ?case
  proof (cases k)
    case 0
    have "\<forall>ts \<in> set xs. ts = []"
    proof
      fix ts assume "ts \<in> set xs"
      then obtain i where "i < length xs" "xs ! i = ts" by (auto simp: in_set_conv_nth)
      with Cons.prems [rule_format, of "Suc i"] 0 show "ts = []" by simp
    qed
    then have "filter (\<lambda>ts. ts \<noteq> []) xs = []" by (simp add: filter_empty_conv)
    then show ?thesis by simp
  next
    case (Suc k')
    from Cons.prems [rule_format, of 0] Suc have x: "x = []" by simp
    have "\<forall>i < length xs. i \<noteq> k' \<longrightarrow> xs ! i = []"
    proof (intro allI impI)
      fix i assume "i < length xs" "i \<noteq> k'"
      with Cons.prems [rule_format, of "Suc i"] Suc show "xs ! i = []" by simp
    qed
    from Cons.IH [OF this] x show ?thesis by simp
  qed
qed

lemma others_disconnected_at_most_one:
  assumes "others_disconnected w"
  shows "length (active_observers w) \<le> Suc 0"
proof (cases "resizeObserver w")
  case None
  with assms have "\<forall>i < length (observers w). i \<noteq> 0 \<longrightarrow> observers w ! i = []"
    by (simp add: others_disconnected_def)
  then show ?thesis unfolding active_observers_def by (rule all_but_one_empty)
next
  case (Some ob)
  with assms have "\<forall>i < length (observers w). i \<noteq> ob \<longrightarrow> observers w ! i = []"
    by (simp add: others_disconnected_def)
  then show ?thesis unfolding active_observers_def by (rule all_but_one_empty)
qed

lemma setupResizeObserver_active:
  assumes "others_disconnected w"
  shows "active_observers (setupResizeObserver w) =
           (case container w of None \<Rightarrow> [] | Some c \<Rightarrow> [[c]])"
  by (simp add: active_observers_def setupResizeObserver_observers
        disconnectPrevious_all_empty [OF assms] split: option.splits)

lemma notifyObservers_skip:
  "notifyObservers env e (replicate k [] @ obs) w = notifyObservers env e obs w"
  by (induction k) simp_all

lemma resizeCallback_single:
  "world_of (resizeCallback env [target] w) =
     (if container w = Some target \<and> saltApp w \<noteq> None then world_of (renderSvg env w) else w)"
  by (auto split: result.splits)

lemma notifyResize_after_setup:
  assumes "others_disconnected w" and "container w = Some c"
  shows "notifyResize env c (setupResizeObserver w) =
           world_of (resizeCallback env [c] (setupResizeObserver w))"
  by (simp del: resizeCallback.simps add: notifyResize_def setupResizeObserver_observers assms(2)
        disconnectPrevious_all_empty [OF assms(1)] notifyObservers_skip)

text \<open>
  C7. Starting from a state in which every observer other than the one the script holds
  is disconnected (as when the script has just been loaded), any number of installations
  keeps that property, so at most one observer is observing anything. An installation
  leaves the previously held observer with no target. With a container, two
  installations leave exactly one observer, observing the container, and a resize of the
  container then leads to exactly one render call when the Application Handle exists.
\<close>

theorem setupResizeObserver_single_observation:
  assumes "others_disconnected w"
  shows "others_disconnected ((setupResizeObserver ^^ n) w) \<and>
         length (active_observers ((setupResizeObserver ^^ n) w)) \<le> 1 \<and>
         (\<forall>ob. resizeObserver w = Some ob \<longrightarrow> observers (setupResizeObserver w) ! ob = []) \<and>
         (container w = Some c \<longrightarrow>
            active_observers (setupResizeObserver (setupResizeObserver w)) = [[c]] \<and>
            (saltApp w = Some s \<longrightarrow>
               calls (notifyResize env c (setupResizeObserver (setupResizeObserver w))) =
                 calls w @ [RenderSvg \<lfloor>rect_width (boundingClientRect (nodes w c))\<rfloor>
                                      \<lfloor>rect_height (boundingClientRect (nodes w c))\<rfloor>]))"
proof (intro conjI allI impI)
  show "others_disconnected ((setupResizeObserver ^^ n) w)"
    using assms by (rule setupResizeObserver_pow_inv)
  then show "length (active_observers ((setupResizeObserver ^^ n) w)) \<le> 1"
    using others_disconnected_at_most_one by fastforce
next
  fix ob assume "resizeObserver w = Some ob"
  with assms have "ob < length (observers w)" by (simp add: others_disconnected_def)
  then show "observers (setupResizeObserver w) ! ob = []"
    by (simp add: setupResizeObserver_observers disconnectPrevious_all_empty [OF assms] nth_append)
next
  assume c: "container w = Some c"
  have inv1: "others_disconnected (setupResizeObserver w)"
    using assms by (rule setupResizeObserver_inv)
  show "active_observers (setupResizeObserver (setupResizeObserver w)) = [[c]]"
    by (simp add: setupResizeObserver_active [OF inv1] setupResizeObserver_frame c)
  assume s: "saltApp w = Some s"
  have c1: "container (setupResizeObserver w) = Some c"
    by (simp add: setupResizeObserver_frame c)
  show "calls (notifyResize env c (setupResizeObserver (setupResizeObserver w))) =
          calls w @ [RenderSvg \<lfloor>rect_width (boundingClientRect (nodes w c))\<rfloor>
                               \<lfloor>rect_height (boundingClientRect (nodes w c))\<rfloor>]"
    by (simp del: resizeCallback.simps
          add: notifyResize_after_setup [OF inv1 c1] resizeCallback_single
               setupResizeObserver_frame c s renderSvg_calls)
qed

theorem setupResizeObserver_single_observation_witness:
  "length (active_observers ((setupResizeObserver ^^ 3) watched_page)) \<le> 1 \<and>
   observers (setupResizeObserver watched_page) ! 0 = [] \<and>
   active_observers (setupResizeObserver (setupResizeObserver watched_page)) = [[7]] \<and>
   calls (notifyResize example_module 7 (setupResizeObserver (setupResizeObserver watched_page))) =
     [RenderSvg 400 300]"
proof -
  have a: "others_disconnected watched_page"
    by (simp add: others_disconnected_def watched_page_def example_defs)
  have b: "resizeObserver watched_page = Some 0" "container watched_page = Some 7"
          "saltApp watched_page = Some 0" "calls watched_page = []"
          "\<lfloor>rect_width (boundingClientRect (nodes watched_page 7))\<rfloor> = 400"
          "\<lfloor>rect_height (boundingClientRect (nodes watched_page 7))\<rfloor> = 300"
    by (simp_all add: watched_page_def example_defs)
  show ?thesis
    using setupResizeObserver_single_observation
            [OF a, where n = 3 and c = 7 and s = 0 and env = example_module]
    by (simp add: b)
qed

text \<open>
  C9. The claim reads: with no Container Reference, installing the Resize Watcher does
  nothing beyond disconnecting a prior observation handle. In the state \<open>initApp\<close>
  reaches on a page without the container element there is no prior handle, so the
  disconnect changes nothing, and yet the installation changes the state: a new observer
  has been created and \<open>resizeObserver\<close> holds it.
\<close>

theorem setupResizeObserver_without_container_counterexample:
  "container unattached_page = None \<and>
   resizeObserver unattached_page = None \<and> observers unattached_page = [] \<and>
   disconnectPrevious unattached_page = unattached_page \<and>
   setupResizeObserver unattached_page =
     unattached_page\<lparr>resizeObserver := Some 0, observers := [[]]\<rparr> \<and>
   resizeObserver (setupResizeObserver unattached_page) = Some 0 \<and>
   setupResizeObserver unattached_page \<noteq> disconnectPrevious unattached_page"
proof -
  have a: "container unattached_page = None" "resizeObserver unattached_page = None"
          "observers unattached_page = []"
    by (simp_all add: unattached_page_def no_container_page_def example_defs)
  have d: "disconnectPrevious unattached_page = unattached_page"
    by (simp add: disconnectPrevious_def a)
  have e: "setupResizeObserver unattached_page =
             unattached_page\<lparr>resizeObserver := Some 0, observers := [[]]\<rparr>"
    by (simp add: setupResizeObserver_def Let_def d a)
  have r: "resizeObserver (setupResizeObserver unattached_page) = Some 0"
    by (simp add: e)
  have n: "setupResizeObserver unattached_page \<noteq> disconnectPrevious unattached_page"
  proof
    assume "setupResizeObserver unattached_page = disconnectPrevious unattached_page"
    then have "resizeObserver (setupResizeObserver unattached_page) =
               resizeObserver (disconnectPrevious unattached_page)"
      by simp
    with r d a(2) show False by simp
  qed
  from a d e r n show ?thesis by blast
qed

text \<open>
  C9, as amended. With no Container Reference, \<open>setupResizeObserver\<close> disconnects the
  previously held observer, creates a new observer, stores it in \<open>resizeObserver\<close> and
  attaches it to nothing, and that is all: no element, nothing on the console, no call
  log, and neither the Application Handle nor the Container Reference changes, and the
  elements being observed are exactly those left after the disconnect.
\<close>

theorem setupResizeObserver_without_container:
  assumes "container w = None"
  shows "let w' = setupResizeObserver w
         in w' = (disconnectPrevious w)
                   \<lparr>observers := observers (disconnectPrevious w) @ [[]],
                    resizeObserver := Some (length (observers w))\<rparr> \<and>
            saltApp w' = saltApp w \<and> container w' = None \<and> elementById w' = elementById w \<and>
            nodes w' = nodes w \<and> console w' = console w \<and> calls w' = calls w \<and>
            resizeObserver w' = Some (length (observers w)) \<and>
            observers w' =
              (case resizeObserver w of None \<Rightarrow> observers w
               | Some ob \<Rightarrow> (observers w)[ob := []]) @ [[]] \<and>
            concat (observers w') = concat (observers (disconnectPrevious w))"
proof -
  have e: "setupResizeObserver w =
             (disconnectPrevious w)
               \<lparr>observers := observers (disconnectPrevious w) @ [[]],
                resizeObserver := Some (length (observers w))\<rparr>"
    using assms
    by (simp add: setupResizeObserver_def Let_def disconnectPrevious_frame)
  have r: "saltApp (setupResizeObserver w) = saltApp w \<and>
           container (setupResizeObserver w) = None \<and>
           elementById (setupResizeObserver w) = elementById w \<and>
           nodes (setupResizeObserver w) = nodes w \<and>
           console (setupResizeObserver w) = console w \<and>
           calls (setupResizeObserver w) = calls w \<and>
           resizeObserver (setupResizeObserver w) = Some (length (observers w)) \<and>
           observers (setupResizeObserver w) =
              (case resizeObserver w of None \<Rightarrow> observers w
               | Some ob \<Rightarrow> (observers w)[ob := []]) @ [[]] \<and>
           concat (observers (setupResizeObserver w)) = concat (observers (disconnectPrevious w))"
    using assms
    by (simp add: setupResizeObserver_frame setupResizeObserver_observers)
       (simp add: disconnectPrevious_def disconnect_def split: option.splits)
  from e r show ?thesis unfolding Let_def by blast
qed

theorem setupResizeObserver_without_container_witness:
  "nodes (setupResizeObserver unresolved_page) = nodes unresolved_page \<and>
   console (setupResizeObserver unresolved_page) = [] \<and>
   calls (setupResizeObserver unresolved_page) = [] \<and>
   resizeObserver (setupResizeObserver unresolved_page) = Some 1 \<and>
   observers (setupResizeObserver unresolved_page) = [[], []]"
proof -
  have a: "container unresolved_page = None"
    by (simp add: unresolved_page_def example_defs)
  have b: "resizeObserver unresolved_page = Some 0" "observers unresolved_page = [[3]]"
          "console unresolved_page = []" "calls unresolved_page = []"
    by (simp_all add: unresolved_page_def example_defs)
  show ?thesis
    using setupResizeObserver_without_container [OF a]
    by (simp add: Let_def b disconnectPrevious_def disconnect_def)
qed

subsection \<open>The Bootstrapper\<close>

lemma catchBlock_frame:
  "container (world_of (catchBlock e w)) = container w"
  "saltApp (world_of (catchBlock e w)) = saltApp w"
  "resizeObserver (world_of (catchBlock e w)) = resizeObserver w"
  "observers (world_of (catchBlock e w)) = observers w"
  "calls (world_of (catchBlock e w)) = calls w"
  "elementById (world_of (catchBlock e w)) = elementById w"
  "listeners (nodes (world_of (catchBlock e w)) x) = listeners (nodes w x)"
  "console (world_of (catchBlock e w)) = console w @ [ConsoleError ''Failed to initialize Salt app:'' e]"
  by (auto simp: catchBlock_def set_innerHTML_def Let_def split: option.splits)

lemma catchBlock_without_container:
  "container w = None \<Longrightarrow>
   catchBlock e w =
     Threw (TypeError ''innerHTML'')
       (w\<lparr>console := console w @ [ConsoleError ''Failed to initialize Salt app:'' e]\<rparr>)"
  by (simp add: catchBlock_def)

lemma catchBlock_with_container:
  "container w = Some c \<Longrightarrow>
   catchBlock e w =
     Done (set_innerHTML c (error_markup e)
       (w\<lparr>console := console w @ [ConsoleError ''Failed to initialize Salt app:'' e]\<rparr>))"
  by (simp add: catchBlock_def)

lemma addEventListener_frame:
  "saltApp (addEventListener c t l w) = saltApp w"
  "container (addEventListener c t l w) = container w"
  "resizeObserver (addEventListener c t l w) = resizeObserver w"
  "elementById (addEventListener c t l w) = elementById w"
  "observers (addEventListener c t l w) = observers w"
  "console (addEventListener c t l w) = console w"
  "calls (addEventListener c t l w) = calls w"
  "innerHTML (nodes (addEventListener c t l w) x) = innerHTML (nodes w x)"
  "boundingClientRect (nodes (addEventListener c t l w) x) = boundingClientRect (nodes w x)"
  "x \<noteq> c \<Longrightarrow> listeners (nodes (addEventListener c t l w) x) = listeners (nodes w x)"
  by (simp_all add: addEventListener_def Let_def)

lemma setupEventListeners_frame:
  "saltApp (setupEventListeners w) = saltApp w"
  "container (setupEventListeners w) = container w"
  "resizeObserver (setupEventListeners w) = resizeObserver w"
  "elementById (setupEventListeners w) = elementById w"
  "observers (setupEventListeners w) = observers w"
  "console (setupEventListeners w) = console w"
  "calls (setupEventListeners w) = calls w"
  "innerHTML (nodes (setupEventListeners w) x) = innerHTML (nodes w x)"
  "boundingClientRect (nodes (setupEventListeners w) x) = boundingClientRect (nodes w x)"
  "container w \<noteq> Some x \<Longrightarrow> listeners (nodes (setupEventListeners w) x) = listeners (nodes w x)"
  by (auto simp: setupEventListeners_def events_def addEventListener_frame split: option.splits)

lemma setupEventListeners_installed:
  assumes "container w = Some c" and "listeners (nodes w c) = []"
  shows "listeners (nodes (setupEventListeners w) c) =
           [(''click'', HandleEvent), (''mousedown'', HandleEvent),
            (''mouseup'', HandleEvent), (''mousemove'', HandleEvent)]"
  using assms
  by (simp add: setupEventListeners_def events_def addEventListener_def)

lemma initApp_import_rejected:
  "import_app env = Some e \<Longrightarrow> initApp env w = catchBlock e w"
  by (simp add: initApp_def tryBlock_def importModule_def)

lemma initApp_default_rejected:
  "import_app env = None \<Longrightarrow> wasm_default env = Some e \<Longrightarrow> initApp env w = catchBlock e w"
  by (simp add: initApp_def tryBlock_def importModule_def wasmDefault_def)

lemma initApp_constructor_throws:
  "import_app env = None \<Longrightarrow> wasm_default env = None \<Longrightarrow> new_SaltApp env = Inl e \<Longrightarrow>
   initApp env w = catchBlock e (w\<lparr>container := elementById w container_id\<rparr>)"
  by (simp add: initApp_def tryBlock_def importModule_def wasmDefault_def getContainer_def
        newSaltApp_def)

lemma initApp_render_throws:
  "import_app env = None \<Longrightarrow> wasm_default env = None \<Longrightarrow> new_SaltApp env = Inr s \<Longrightarrow>
   renderSvg env (w\<lparr>container := elementById w container_id, saltApp := Some s\<rparr>) = Threw e w4 \<Longrightarrow>
   initApp env w = catchBlock e w4"
  by (simp add: initApp_def tryBlock_def importModule_def wasmDefault_def getContainer_def
        newSaltApp_def)

lemma initApp_completes:
  "import_app env = None \<Longrightarrow> wasm_default env = None \<Longrightarrow> new_SaltApp env = Inr s \<Longrightarrow>
   renderSvg env (w\<lparr>container := elementById w container_id, saltApp := Some s\<rparr>) = Done w4 \<Longrightarrow>
   initApp env w =
     Done ((setupResizeObserver (setupEventListeners w4))
             \<lparr>console := console w4 @ [ConsoleLog ''Salt app initialized successfully'']\<rparr>)"
  by (simp add: initApp_def tryBlock_def importModule_def wasmDefault_def getContainer_def
        newSaltApp_def logInitialized_def setupResizeObserver_frame setupEventListeners_frame)

lemma initApp_constructor_failure_displayed:
  assumes "import_app env = None" and "wasm_default env = None" and "new_SaltApp env = Inl e"
    and "elementById w container_id = Some c"
  shows "\<not> threw (initApp env w) \<and>
         innerHTML (nodes (world_of (initApp env w)) c) = error_markup e"
  using assms(4)
  by (simp add: initApp_constructor_throws [OF assms(1-3)] catchBlock_def set_innerHTML_def)

lemma initApp_load_rejection_escapes:
  assumes "container w = None" and "import_app env = Some e"
  shows "initApp env w =
           Threw (TypeError ''innerHTML'')
             (w\<lparr>console := console w @ [ConsoleError ''Failed to initialize Salt app:'' e]\<rparr>)"
  by (simp add: initApp_import_rejected [OF assms(2)] catchBlock_without_container [OF assms(1)])

text \<open>
  C1. The claim asks that a rejected module load ends with the container showing
  ``Error: network error''. On a page that has the container element, a load rejected
  with that message is logged, and then the handler itself throws: \<open>container\<close> is
  assigned only after the load, so it is still \<open>null\<close> when the handler writes to it.
  The element keeps the content it had.
\<close>

theorem initApp_load_rejection_not_displayed:
  "elementById example_page container_id = Some 7 \<and>
   initApp failing_module example_page =
     Threw (TypeError ''innerHTML'')
       (example_page\<lparr>console :=
          [ConsoleError ''Failed to initialize Salt app:'' (Error ''network error'')]\<rparr>) \<and>
   innerHTML (nodes (world_of (initApp failing_module example_page)) 7) = ''loading''"
proof -
  have a: "import_app failing_module = Some (Error ''network error'')"
    by (simp add: failing_module_def)
  have b: "container example_page = None" "console example_page = []"
    by (simp_all add: example_defs)
  show ?thesis
    by (simp add: initApp_import_rejected [OF a] catchBlock_without_container [OF b(1)] b(2))
       (simp add: example_defs)
qed

text \<open>
  C8. \<open>initApp\<close> runs load, resolve, construct, render, listeners, resize watcher in
  that order, and the first statement that throws hands the state it left to the handler:
  \<^item> a rejected load: nothing else has run (no container resolved, no handle, no call,
    no listener, no observer);
  \<^item> a throwing constructor: the container has been resolved and nothing after it has run;
  \<^item> a throwing render: the container is resolved, the handle exists, the render call
    was made, and no listener or observer has been added;
  \<^item> otherwise the listeners are installed on the state the render left, the resize
    watcher on the state the listeners left, and \<open>initApp\<close> returns normally.
\<close>

theorem initApp_steps_in_order:
  "let w' = world_of (initApp env w);
       found = elementById w container_id;
       w3 = w\<lparr>container := found, saltApp := Some s\<rparr>
   in (import_app env = Some e \<or> (import_app env = None \<and> wasm_default env = Some e) \<longrightarrow>
         initApp env w = catchBlock e w \<and>
         container w' = container w \<and> saltApp w' = saltApp w \<and> calls w' = calls w \<and>
         (\<forall>x. listeners (nodes w' x) = listeners (nodes w x)) \<and> observers w' = observers w) \<and>
      (import_app env = None \<and> wasm_default env = None \<and> new_SaltApp env = Inl e \<longrightarrow>
         initApp env w = catchBlock e (w\<lparr>container := found\<rparr>) \<and>
         container w' = found \<and> saltApp w' = saltApp w \<and> calls w' = calls w \<and>
         (\<forall>x. listeners (nodes w' x) = listeners (nodes w x)) \<and> observers w' = observers w) \<and>
      (import_app env = None \<and> wasm_default env = None \<and> new_SaltApp env = Inr s \<and>
       renderSvg env w3 = Threw e w4 \<longrightarrow>
         initApp env w = catchBlock e w4 \<and>
         container w' = found \<and> saltApp w' \<noteq> None \<and> calls w' = calls w4 \<and>
         (\<forall>x. listeners (nodes w' x) = listeners (nodes w x)) \<and> observers w' = observers w) \<and>
      (import_app env = None \<and> wasm_default env = None \<and> new_SaltApp env = Inr s \<and>
       renderSvg env w3 = Done w4 \<longrightarrow>
         initApp env w =
           Done ((setupResizeObserver (setupEventListeners w4))
                   \<lparr>console := console w4 @ [ConsoleLog ''Salt app initialized successfully'']\<rparr>) \<and>
         container w' = found \<and> saltApp w' \<noteq> None \<and> calls w' = calls w4 \<and>
         (\<forall>c. found = Some c \<and> listeners (nodes w c) = [] \<longrightarrow>
               map fst (listeners (nodes w' c)) = events) \<and>
         observers w' =
           observers (disconnectPrevious w) @ [case found of None \<Rightarrow> [] | Some c \<Rightarrow> [c]])"
proof -
  define found where "found = elementById w container_id"
  define w3 where "w3 = w\<lparr>container := found, saltApp := Some s\<rparr>"
  have load: "initApp env w = catchBlock e w"
    if "import_app env = Some e \<or> (import_app env = None \<and> wasm_default env = Some e)"
    using that initApp_import_rejected [of env e w] initApp_default_rejected [of env e w] by blast
  have ctor: "initApp env w = catchBlock e (w\<lparr>container := found\<rparr>)"
    if "import_app env = None \<and> wasm_default env = None \<and> new_SaltApp env = Inl e"
    using that initApp_constructor_throws [of env e w] by (simp add: found_def)
  have rend: "initApp env w = catchBlock e w4"
    if "import_app env = None \<and> wasm_default env = None \<and> new_SaltApp env = Inr s \<and>
        renderSvg env w3 = Threw e w4"
    using that initApp_render_throws [of env s w e w4] by (simp add: found_def w3_def)
  have fine: "initApp env w =
      Done ((setupResizeObserver (setupEventListeners w4))
              \<lparr>console := console w4 @ [ConsoleLog ''Salt app initialized successfully'']\<rparr>)"
    if "import_app env = None \<and> wasm_default env = None \<and> new_SaltApp env = Inr s \<and>
        renderSvg env w3 = Done w4"
    using that initApp_completes [of env s w w4] by (simp add: found_def w3_def)
  have w4_frame:
    "container w4 = found \<and> saltApp w4 \<noteq> None \<and> observers w4 = observers w \<and>
     resizeObserver w4 = resizeObserver w \<and> (\<forall>x. listeners (nodes w4 x) = listeners (nodes w x))"
    if "world_of (renderSvg env w3) = w4"
    using that renderSvg_frame(1,2,3,6) [of env w3] renderSvg_saltApp(1) [of env w3]
    by (auto simp: w3_def)
  have A: "import_app env = Some e \<or> (import_app env = None \<and> wasm_default env = Some e) \<longrightarrow>
         initApp env w = catchBlock e w \<and>
         container (world_of (initApp env w)) = container w \<and>
         saltApp (world_of (initApp env w)) = saltApp w \<and>
         calls (world_of (initApp env w)) = calls w \<and>
         (\<forall>x. listeners (nodes (world_of (initApp env w)) x) = listeners (nodes w x)) \<and>
         observers (world_of (initApp env w)) = observers w"
    using load by (simp add: catchBlock_frame)
  have B: "import_app env = None \<and> wasm_default env = None \<and> new_SaltApp env = Inl e \<longrightarrow>
         initApp env w = catchBlock e (w\<lparr>container := found\<rparr>) \<and>
         container (world_of (initApp env w)) = found \<and>
         saltApp (world_of (initApp env w)) = saltApp w \<and>
         calls (world_of (initApp env w)) = calls w \<and>
         (\<forall>x. listeners (nodes (world_of (initApp env w)) x) = listeners (nodes w x)) \<and>
         observers (world_of (initApp env w)) = observers w"
    using ctor by (simp add: catchBlock_frame)
  have C: "import_app env = None \<and> wasm_default env = None \<and> new_SaltApp env = Inr s \<and>
       renderSvg env w3 = Threw e w4 \<longrightarrow>
         initApp env w = catchBlock e w4 \<and>
         container (world_of (initApp env w)) = found \<and>
         saltApp (world_of (initApp env w)) \<noteq> None \<and>
         calls (world_of (initApp env w)) = calls w4 \<and>
         (\<forall>x. listeners (nodes (world_of (initApp env w)) x) = listeners (nodes w x)) \<and>
         observers (world_of (initApp env w)) = observers w"
  proof
    assume h: "import_app env = None \<and> wasm_default env = None \<and> new_SaltApp env = Inr s \<and>
       renderSvg env w3 = Threw e w4"
    then have "world_of (renderSvg env w3) = w4" by simp
    from w4_frame [OF this] rend [OF h] show "initApp env w = catchBlock e w4 \<and>
         container (world_of (initApp env w)) = found \<and>
         saltApp (world_of (initApp env w)) \<noteq> None \<and>
         calls (world_of (initApp env w)) = calls w4 \<and>
         (\<forall>x. listeners (nodes (world_of (initApp env w)) x) = listeners (nodes w x)) \<and>
         observers (world_of (initApp env w)) = observers w"
      by (simp add: catchBlock_frame)
  qed
  have D: "import_app env = None \<and> wasm_default env = None \<and> new_SaltApp env = Inr s \<and>
       renderSvg env w3 = Done w4 \<longrightarrow>
         initApp env w =
           Done ((setupResizeObserver (setupEventListeners w4))
                   \<lparr>console := console w4 @ [ConsoleLog ''Salt app initialized successfully'']\<rparr>) \<and>
         container (world_of (initApp env w)) = found \<and>
         saltApp (world_of (initApp env w)) \<noteq> None \<and>
         calls (world_of (initApp env w)) = calls w4 \<and>
         (\<forall>c. found = Some c \<and> listeners (nodes w c) = [] \<longrightarrow>
               map fst (listeners (nodes (world_of (initApp env w)) c)) = events) \<and>
         observers (world_of (initApp env w)) =
           observers (disconnectPrevious w) @ [case found of None \<Rightarrow> [] | Some c \<Rightarrow> [c]]"
  proof
    assume h: "import_app env = None \<and> wasm_default env = None \<and> new_SaltApp env = Inr s \<and>
       renderSvg env w3 = Done w4"
    then have "world_of (renderSvg env w3) = w4" by simp
    note f = w4_frame [OF this]
    have obs: "observers (disconnectPrevious (setupEventListeners w4)) = observers (disconnectPrevious w)"
      using f by (simp add: disconnectPrevious_def disconnect_def setupEventListeners_frame
                    split: option.splits)
    have lis: "map fst (listeners (nodes (setupEventListeners w4) c)) = events"
      if "found = Some c \<and> listeners (nodes w c) = []" for c
      using that f setupEventListeners_installed [of w4 c] by (simp add: events_def)
    from f fine [OF h] obs lis show "initApp env w =
           Done ((setupResizeObserver (setupEventListeners w4))
                   \<lparr>console := console w4 @ [ConsoleLog ''Salt app initialized successfully'']\<rparr>) \<and>
         container (world_of (initApp env w)) = found \<and>
         saltApp (world_of (initApp env w)) \<noteq> None \<and>
         calls (world_of (initApp env w)) = calls w4 \<and>
         (\<forall>c. found = Some c \<and> listeners (nodes w c) = [] \<longrightarrow>
               map fst (listeners (nodes (world_of (initApp env w)) c)) = events) \<and>
         observers (world_of (initApp env w)) =
           observers (disconnectPrevious w) @ [case found of None \<Rightarrow> [] | Some c \<Rightarrow> [c]]"
      by (simp add: setupResizeObserver_frame setupResizeObserver_observers
            setupEventListeners_frame)
  qed
  from A B C D show ?thesis
    unfolding Let_def found_def [symmetric] w3_def [symmetric] by blast
qed

theorem initApp_steps_in_order_witness:
  "(initApp failing_module example_page = catchBlock (Error ''network error'') example_page \<and>
    container (world_of (initApp failing_module example_page)) = None \<and>
    observers (world_of (initApp failing_module example_page)) = []) \<and>
   (initApp failing_init_module example_page = catchBlock (Error ''bad magic number'') example_page \<and>
    saltApp (world_of (initApp failing_init_module example_page)) = None \<and>
    calls (world_of (initApp failing_init_module example_page)) = []) \<and>
   (container (world_of (initApp throwing_constructor_module example_page)) = Some 7 \<and>
    saltApp (world_of (initApp throwing_constructor_module example_page)) = None \<and>
    calls (world_of (initApp throwing_constructor_module example_page)) = [] \<and>
    listeners (nodes (world_of (initApp throwing_constructor_module example_page)) 7) = [] \<and>
    observers (world_of (initApp throwing_constructor_module example_page)) = []) \<and>
   (calls (world_of (initApp throwing_render_module example_page)) = [RenderSvg 400 300] \<and>
    listeners (nodes (world_of (initApp throwing_render_module example_page)) 7) = [] \<and>
    observers (world_of (initApp throwing_render_module example_page)) = []) \<and>
   (calls (world_of (initApp example_module example_page)) = [RenderSvg 400 300] \<and>
    map fst (listeners (nodes (world_of (initApp example_module example_page)) 7)) = events \<and>
    observers (world_of (initApp example_module example_page)) = [[7]])"
proof -
  have p: "elementById example_page container_id = Some 7" "container example_page = None"
          "saltApp example_page = None" "calls example_page = []" "observers example_page = []"
          "listeners (nodes example_page 7) = []" "resizeObserver example_page = None"
    by (simp_all add: example_defs)
  have a: "import_app failing_module = Some (Error ''network error'')"
    by (simp add: failing_module_def)
  have b: "import_app throwing_constructor_module = None"
          "wasm_default throwing_constructor_module = None"
          "new_SaltApp throwing_constructor_module = Inl (Error ''out of memory'')"
    by (simp_all add: throwing_constructor_module_def example_module_def)
  have c: "import_app throwing_render_module = None"
          "wasm_default throwing_render_module = None"
          "new_SaltApp throwing_render_module = Inr 0"
          "renderSvg throwing_render_module (example_page\<lparr>container := Some 7, saltApp := Some 0\<rparr>) =
             Threw (Error ''unreachable'')
               (example_page\<lparr>container := Some 7, saltApp := Some 0, calls := [RenderSvg 400 300]\<rparr>)"
    by (simp_all add: throwing_render_module_def renderSvg_def example_defs)
  have d: "import_app example_module = None" "wasm_default example_module = None"
          "new_SaltApp example_module = Inr 0"
    by (simp_all add: example_defs)
  have d4: \<open>renderSvg example_module (example_page\<lparr>container := Some 7, saltApp := Some 0\<rparr>) =
             Done (example_page\<lparr>container := Some 7, saltApp := Some 0,
                     calls := [RenderSvg 400 300],
                     nodes := (nodes example_page)
                       (7 := (nodes example_page 7)\<lparr>innerHTML := ''<svg width="400" height="300"/>''\<rparr>)\<rparr>)\<close>
    by (simp add: renderSvg_def set_innerHTML_def Let_def example_defs)
  have A: "initApp failing_module example_page = catchBlock (Error ''network error'') example_page \<and>
    container (world_of (initApp failing_module example_page)) = None \<and>
    observers (world_of (initApp failing_module example_page)) = []"
    using initApp_steps_in_order [where env = failing_module and w = example_page
            and e = "Error ''network error''"]
    by (simp add: Let_def p a catchBlock_frame)
  have a': "import_app failing_init_module = None"
           "wasm_default failing_init_module = Some (Error ''bad magic number'')"
    by (simp_all add: failing_init_module_def example_module_def)
  have A': "initApp failing_init_module example_page =
      catchBlock (Error ''bad magic number'') example_page \<and>
    saltApp (world_of (initApp failing_init_module example_page)) = None \<and>
    calls (world_of (initApp failing_init_module example_page)) = []"
    using initApp_steps_in_order [where env = failing_init_module and w = example_page
            and e = "Error ''bad magic number''"]
    by (simp add: Let_def p a' catchBlock_frame)
  have B: "container (world_of (initApp throwing_constructor_module example_page)) = Some 7 \<and>
    saltApp (world_of (initApp throwing_constructor_module example_page)) = None \<and>
    calls (world_of (initApp throwing_constructor_module example_page)) = [] \<and>
    listeners (nodes (world_of (initApp throwing_constructor_module example_page)) 7) = [] \<and>
    observers (world_of (initApp throwing_constructor_module example_page)) = []"
    using initApp_steps_in_order [where env = throwing_constructor_module and w = example_page
            and e = "Error ''out of memory''"]
    by (simp add: Let_def p b catchBlock_frame)
  have C: "calls (world_of (initApp throwing_render_module example_page)) = [RenderSvg 400 300] \<and>
    listeners (nodes (world_of (initApp throwing_render_module example_page)) 7) = [] \<and>
    observers (world_of (initApp throwing_render_module example_page)) = []"
    using initApp_steps_in_order [where env = throwing_render_module and w = example_page
            and e = "Error ''unreachable''" and s = 0
            and ?w4.0 = "example_page\<lparr>container := Some 7, saltApp := Some 0,
                            calls := [RenderSvg 400 300]\<rparr>"]
    by (simp add: Let_def p c catchBlock_frame)
  have D: "calls (world_of (initApp example_module example_page)) = [RenderSvg 400 300] \<and>
    map fst (listeners (nodes (world_of (initApp example_module example_page)) 7)) = events \<and>
    observers (world_of (initApp example_module example_page)) = [[7]]"
    using initApp_steps_in_order [where env = example_module and w = example_page and s = 0
            and ?w4.0 = \<open>example_page\<lparr>container := Some 7, saltApp := Some 0,
                     calls := [RenderSvg 400 300],
                     nodes := (nodes example_page)
                       (7 := (nodes example_page 7)\<lparr>innerHTML := ''<svg width="400" height="300"/>''\<rparr>)\<rparr>\<close>]
    by (simp add: Let_def p d d4 disconnectPrevious_def setupResizeObserver_frame
          setupResizeObserver_observers setupEventListeners_frame
          setupEventListeners_installed events_def)
  from A A' B C D show ?thesis by blast
qed

text \<open>
  C5. The claim reads: an absent container element makes initialization fail with an
  exception, which is caught and logged. On a page without the element and with a module
  that loads and constructs, no statement throws: \<open>initApp\<close> returns normally and the
  only console entry is the success message.
\<close>

theorem initApp_missing_container_counterexample:
  "elementById no_container_page container_id = None \<and>
   \<not> threw (run_steps (tryBlock example_module) no_container_page) \<and>
   initApp example_module no_container_page =
     Done (no_container_page\<lparr>saltApp := Some 0, resizeObserver := Some 0, observers := [[]],
             console := [ConsoleLog ''Salt app initialized successfully'']\<rparr>)"
  by (simp add: no_container_page_def example_defs initApp_def tryBlock_def importModule_def
        wasmDefault_def getContainer_def newSaltApp_def renderSvg_def setupEventListeners_def
        setupResizeObserver_def disconnectPrevious_def logInitialized_def)

text \<open>
  C5, as amended. When the script has no container yet and the document has no element
  with the fixed identifier, resolving it throws nothing and leaves the state as it is;
  whatever the module does, \<open>initApp\<close> changes no element and the Container Reference
  stays \<open>null\<close>; and when the module loads and constructs, \<open>initApp\<close> returns
  normally, having stored the handle, created a resize observer that observes nothing
  and logged success.
\<close>

theorem initApp_missing_container:
  assumes "container w = None" and "elementById w container_id = None"
  shows "getContainer w = Done w \<and>
         nodes (world_of (initApp env w)) = nodes w \<and>
         container (world_of (initApp env w)) = None \<and>
         (import_app env = None \<and> wasm_default env = None \<and> new_SaltApp env = Inr s \<longrightarrow>
            initApp env w =
              Done ((setupResizeObserver (w\<lparr>saltApp := Some s\<rparr>))
                      \<lparr>console := console w @ [ConsoleLog ''Salt app initialized successfully'']\<rparr>) \<and>
            observers (world_of (initApp env w)) = observers (disconnectPrevious w) @ [[]])"
proof (intro conjI impI)
  show "getContainer w = Done w"
    using assms by (simp add: getContainer_def)
  have wc: "w\<lparr>container := None\<rparr> = w"
    using assms(1) by (cases w) simp
  have r: "renderSvg env (w\<lparr>saltApp := Some s'\<rparr>) = Done (w\<lparr>saltApp := Some s'\<rparr>)" for s'
    using assms by (simp add: renderSvg_def)
  have l: "setupEventListeners (w\<lparr>saltApp := Some s'\<rparr>) = w\<lparr>saltApp := Some s'\<rparr>" for s'
    using assms by (simp add: setupEventListeners_def)
  show "nodes (world_of (initApp env w)) = nodes w"
    using assms r l
    by (simp add: initApp_def tryBlock_def importModule_def wasmDefault_def getContainer_def
          newSaltApp_def logInitialized_def catchBlock_def setupResizeObserver_frame wc
          split: option.splits sum.splits)
  show "container (world_of (initApp env w)) = None"
    using assms r l
    by (simp add: initApp_def tryBlock_def importModule_def wasmDefault_def getContainer_def
          newSaltApp_def logInitialized_def catchBlock_def setupResizeObserver_frame wc
          split: option.splits sum.splits)
  assume ok: "import_app env = None \<and> wasm_default env = None \<and> new_SaltApp env = Inr s"
  then show eq: "initApp env w =
              Done ((setupResizeObserver (w\<lparr>saltApp := Some s\<rparr>))
                      \<lparr>console := console w @ [ConsoleLog ''Salt app initialized successfully'']\<rparr>)"
    using assms r l
    by (simp add: initApp_def tryBlock_def importModule_def wasmDefault_def getContainer_def
          newSaltApp_def logInitialized_def setupResizeObserver_frame wc)
  show "observers (world_of (initApp env w)) = observers (disconnectPrevious w) @ [[]]"
    using assms(1)
    by (simp add: eq setupResizeObserver_observers disconnectPrevious_def disconnect_def
          split: option.splits)
qed

theorem initApp_missing_container_witness:
  "getContainer no_container_page = Done no_container_page \<and>
   nodes (world_of (initApp throwing_constructor_module no_container_page)) = nodes no_container_page \<and>
   container (world_of (initApp example_module no_container_page)) = None \<and>
   initApp example_module no_container_page =
     Done ((setupResizeObserver (no_container_page\<lparr>saltApp := Some 0\<rparr>))
             \<lparr>console := [ConsoleLog ''Salt app initialized successfully'']\<rparr>) \<and>
   observers (world_of (initApp example_module no_container_page)) = [[]]"
proof -
  have a: "container no_container_page = None" "elementById no_container_page container_id = None"
    by (simp_all add: no_container_page_def example_defs)
  have b: "import_app example_module = None \<and> wasm_default example_module = None \<and>
           new_SaltApp example_module = Inr 0" "console no_container_page = []"
    by (simp_all add: no_container_page_def example_defs)
  have c: "observers (disconnectPrevious no_container_page) = []"
    by (simp add: disconnectPrevious_def no_container_page_def example_defs)
  note t1 = initApp_missing_container [OF a, where env = throwing_constructor_module]
  note t2 = initApp_missing_container [OF a, where env = example_module and s = 0]
  from t1 have w1: "getContainer no_container_page = Done no_container_page"
    "nodes (world_of (initApp throwing_constructor_module no_container_page)) =
       nodes no_container_page"
    by blast+
  from t2 have w2: "container (world_of (initApp example_module no_container_page)) = None"
    by blast
  from t2 b(1) have w3: "initApp example_module no_container_page =
     Done ((setupResizeObserver (no_container_page\<lparr>saltApp := Some 0\<rparr>))
             \<lparr>console := console no_container_page @
                [ConsoleLog ''Salt app initialized successfully'']\<rparr>)"
    by blast
  from t2 b(1) have w4: "observers (world_of (initApp example_module no_container_page)) =
      observers (disconnectPrevious no_container_page) @ [[]]"
    by blast
  from w1 w2 w3 [unfolded b(2) append_Nil] w4 [unfolded c append_Nil]
  show ?thesis by blast
qed

subsection \<open>Reachability\<close>

lemma handleEvent_fault_iff:
  "handleEvent env ev w = Threw (TypeError ''getBoundingClientRect'') w \<longleftrightarrow>
     saltApp w \<noteq> None \<and> container w = None"
proof (cases "saltApp w")
  case None
  then show ?thesis by (simp add: handleEvent_def)
next
  case (Some s)
  show ?thesis
  proof (cases "container w")
    case None
    with Some show ?thesis by (simp add: handleEvent_def)
  next
    case (Some c)
    have "handleEvent env ev w \<noteq> Threw (TypeError ''getBoundingClientRect'') w"
    proof
      assume "handleEvent env ev w = Threw (TypeError ''getBoundingClientRect'') w"
      then have "world_of (handleEvent env ev w) = w" by simp
      with handleEvent_first_call [OF \<open>saltApp w = Some s\<close> Some, of env ev]
      have "length (take (Suc (length (calls w))) (calls w)) = Suc (length (calls w))"
        by simp
      then show False by simp
    qed
    with Some show ?thesis by simp
  qed
qed

lemma resizeCallback_frame:
  "container (world_of (resizeCallback env entries w)) = container w"
  "listeners (nodes (world_of (resizeCallback env entries w)) x) = listeners (nodes w x)"
proof (induction entries arbitrary: w)
  case Nil
  { case 1 show ?case by simp }
  { case 2 show ?case by simp }
next
  case (Cons target entries)
  { case 1
    show ?case
      using Cons.IH(1) [of w] Cons.IH(1) [of "world_of (renderSvg env w)"] renderSvg_frame(1) [of env w]
      by (cases "renderSvg env w") auto }
  { case 2
    show ?case
      using Cons.IH(2) [of w] Cons.IH(2) [of "world_of (renderSvg env w)"] renderSvg_frame(6) [of env w x]
      by (cases "renderSvg env w") auto }
qed

lemma notifyObservers_frame:
  "container (notifyObservers env e obs w) = container w"
  "listeners (nodes (notifyObservers env e obs w) x) = listeners (nodes w x)"
  by (induction obs arbitrary: w) (simp_all add: resizeCallback_frame del: resizeCallback.simps)

lemma runListeners_frame:
  "container (runListeners env ev ls w) = container w"
  "listeners (nodes (runListeners env ev ls w) x) = listeners (nodes w x)"
  by (induction env ev ls w rule: runListeners.induct) (simp_all add: handleEvent_frame)

lemma host_step_frame:
  "container (host_step env h w) = container w"
  "listeners (nodes (host_step env h w) x) = listeners (nodes w x)"
  by (cases h; simp add: dispatchEvent_def notifyResize_def layout_def
        runListeners_frame notifyObservers_frame)+

lemma fold_host_step_frame:
  "container (fold (host_step env) hs w) = container w"
  "listeners (nodes (fold (host_step env) hs w) x) = listeners (nodes w x)"
  by (induction hs arbitrary: w) (simp_all add: host_step_frame)

lemma initApp_listeners_need_container:
  assumes "fresh w" and "listeners (nodes (world_of (initApp env w)) x) \<noteq> []"
  shows "container (world_of (initApp env w)) \<noteq> None"
proof -
  from assms(1) have nl: "listeners (nodes w y) = []" for y by (simp add: fresh_def)
  define w3 where "w3 s = w\<lparr>container := elementById w container_id, saltApp := Some s\<rparr>" for s
  have w3l: "listeners (nodes (world_of (renderSvg env (w3 s))) y) = []" for s y
    using renderSvg_frame(6) [of env "w3 s" y] nl by (simp add: w3_def)
  show ?thesis
  proof (cases "import_app env")
    case (Some e)
    from assms(2) show ?thesis
      by (simp add: initApp_import_rejected [OF Some] catchBlock_frame nl)
  next
    case None
    note imp = this
    show ?thesis
    proof (cases "wasm_default env")
      case (Some e)
      from assms(2) show ?thesis
        by (simp add: initApp_default_rejected [OF imp Some] catchBlock_frame nl)
    next
      case None
      note dflt = this
      show ?thesis
      proof (cases "new_SaltApp env")
        case (Inl e)
        from assms(2) show ?thesis
          by (simp add: initApp_constructor_throws [OF imp dflt Inl] catchBlock_frame nl)
      next
        case (Inr s)
        show ?thesis
        proof (cases "renderSvg env (w3 s)")
          case (Threw e w4)
          then have "world_of (renderSvg env (w3 s)) = w4" by simp
          with w3l [of s] have "listeners (nodes w4 y) = []" for y by simp
          with assms(2) show ?thesis
            using initApp_render_throws [OF imp dflt Inr, of w e w4] Threw
            by (simp add: w3_def catchBlock_frame)
        next
          case (Done w4)
          then have w4: "world_of (renderSvg env (w3 s)) = w4" by simp
          with w3l [of s] have l4: "listeners (nodes w4 y) = []" for y by simp
          have c4: "container w4 = elementById w container_id"
            using renderSvg_frame(1) [of env "w3 s"] w4 by (simp add: w3_def)
          have eq: "initApp env w =
              Done ((setupResizeObserver (setupEventListeners w4))
                \<lparr>console := console w4 @ [ConsoleLog ''Salt app initialized successfully'']\<rparr>)"
            using initApp_completes [OF imp dflt Inr, of w w4] Done by (simp add: w3_def)
          show ?thesis
          proof
            assume "container (world_of (initApp env w)) = None"
            then have "container w4 = None"
              by (simp add: eq setupResizeObserver_frame setupEventListeners_frame)
            then have "setupEventListeners w4 = w4" by (simp add: setupEventListeners_def)
            with assms(2) l4 show False
              by (simp add: eq setupResizeObserver_frame)
          qed
        qed
      qed
    qed
  qed
qed

text \<open>
  C10. \<open>handleEvent\<close> throws on reading the bounding rectangle of \<open>null\<close>, leaving the
  state as it found it, exactly when the Application Handle exists and the Container
  Reference does not. On a page that starts from the freshly loaded script, runs
  \<open>initApp\<close> and then receives any events, the Container Reference stays what
  \<open>initApp\<close> left, and whenever an element carries a listener of this script, every
  state in which one of its listeners is invoked has a Container Reference.
\<close>

theorem handleEvent_null_container_unreachable:
  "(handleEvent env ev w = Threw (TypeError ''getBoundingClientRect'') w \<longleftrightarrow>
      saltApp w \<noteq> None \<and> container w = None) \<and>
   (fresh w0 \<longrightarrow>
      (let w1 = page env hs w0
       in container w1 = container (world_of (initApp env w0)) \<and>
          (\<forall>x k. listeners (nodes w1 x) \<noteq> [] \<longrightarrow>
             container (runListeners env ev (take k (listeners (nodes w1 x))) w1) \<noteq> None)))"
proof (intro conjI impI)
  show "handleEvent env ev w = Threw (TypeError ''getBoundingClientRect'') w \<longleftrightarrow>
      saltApp w \<noteq> None \<and> container w = None"
    by (rule handleEvent_fault_iff)
next
  assume f: "fresh w0"
  have c: "container (page env hs w0) = container (world_of (initApp env w0))"
    by (simp add: page_def fold_host_step_frame)
  have l: "listeners (nodes (page env hs w0) x) = listeners (nodes (world_of (initApp env w0)) x)" for x
    by (simp add: page_def fold_host_step_frame)
  show "let w1 = page env hs w0
       in container w1 = container (world_of (initApp env w0)) \<and>
          (\<forall>x k. listeners (nodes w1 x) \<noteq> [] \<longrightarrow>
             container (runListeners env ev (take k (listeners (nodes w1 x))) w1) \<noteq> None)"
    unfolding Let_def
  proof (intro conjI allI impI)
    show "container (page env hs w0) = container (world_of (initApp env w0))" by (rule c)
  next
    fix x k assume "listeners (nodes (page env hs w0) x) \<noteq> []"
    then have "listeners (nodes (world_of (initApp env w0)) x) \<noteq> []" by (simp add: l)
    from initApp_listeners_need_container [OF f this]
    show "container (runListeners env ev (take k (listeners (nodes (page env hs w0) x)))
            (page env hs w0)) \<noteq> None"
      by (simp add: runListeners_frame c)
  qed
qed

theorem handleEvent_null_container_unreachable_witness:
  "handleEvent example_module mousedown_120_160 handle_only_page =
     Threw (TypeError ''getBoundingClientRect'') handle_only_page \<and>
   container (page example_module example_events example_page) = Some 7 \<and>
   listeners (nodes (page example_module example_events example_page) 7) \<noteq> [] \<and>
   container (runListeners example_module mousedown_120_160
      (take 2 (listeners (nodes (page example_module example_events example_page) 7)))
      (page example_module example_events example_page)) \<noteq> None"
proof -
  have f: "fresh example_page"
    by (simp add: fresh_def example_defs)
  have h: "saltApp handle_only_page \<noteq> None \<and> container handle_only_page = None"
    by (simp add: handle_only_page_def example_defs)
  have i: "container (world_of (initApp example_module example_page)) = Some 7"
          "listeners (nodes (world_of (initApp example_module example_page)) 7) \<noteq> []"
    by (simp_all add: example_defs initApp_def tryBlock_def importModule_def wasmDefault_def
          getContainer_def newSaltApp_def renderSvg_def set_innerHTML_def setupEventListeners_def
          events_def addEventListener_def setupResizeObserver_def disconnectPrevious_def
          observe_def logInitialized_def Let_def)
  have l: "listeners (nodes (page example_module example_events example_page) 7) \<noteq> []"
    using i(2) by (simp add: page_def fold_host_step_frame)
  note t = handleEvent_null_container_unreachable
             [where env = example_module and ev = mousedown_120_160 and w = handle_only_page
                and ?w0.0 = example_page and hs = example_events]
  from t h have a: "handleEvent example_module mousedown_120_160 handle_only_page =
     Threw (TypeError ''getBoundingClientRect'') handle_only_page"
    by blast
  from t f have b: "container (page example_module example_events example_page) =
      container (world_of (initApp example_module example_page))"
    by (simp add: Let_def)
  from t f have "\<forall>x k. listeners (nodes (page example_module example_events example_page) x) \<noteq> [] \<longrightarrow>
       container (runListeners example_module mousedown_120_160
         (take k (listeners (nodes (page example_module example_events example_page) x)))
         (page example_module example_events example_page)) \<noteq> None"
    by (simp add: Let_def)
  with l have c: "container (runListeners example_module mousedown_120_160
      (take 2 (listeners (nodes (page example_module example_events example_page) 7)))
      (page example_module example_events example_page)) \<noteq> None"
    by blast
  from a b c l i(1) show ?thesis by simp
qed

end
